theory Spec2Isabelle
  imports
    Main
    "HOL-Library.Multiset"
    "HOL-Library.Char_ord"
    "HOL-Library.List_Lexorder"
    "HOL-Library.Product_Lexorder"
begin

section \<open>Strings, dates and effects shared by the screens\<close>

text \<open>
  A JavaScript string is modelled as a \<open>string\<close> of 8-bit code units. The white-space
  code units that \<open>String.prototype.trim\<close> strips in that range are TAB, LF, VT, FF, CR,
  SPACE and NO-BREAK SPACE; the white-space characters beyond U+00FF are outside the model.
  An empty string is falsy, so \<open>!s.trim()\<close> is \<open>trim s = []\<close>.
\<close>

definition isWhiteSpace :: "char \<Rightarrow> bool" where
  "isWhiteSpace c = (of_char c \<in> {9, 10, 11, 12, 13, 32, 160 :: nat})"

definition trim :: "string \<Rightarrow> string" where
  "trim s = rev (dropWhile isWhiteSpace (rev (dropWhile isWhiteSpace s)))"

text \<open>The decimal rendering of an integer inside a template literal.\<close>

definition digitChar :: "nat \<Rightarrow> char" where
  "digitChar n = ''0123456789'' ! n"

fun showNat :: "nat \<Rightarrow> string" where
  "showNat n =
     (if n < 10 then [digitChar n]
      else showNat (n div 10) @ [digitChar (n mod 10)])"

declare showNat.simps [simp del]

definition showInt :: "int \<Rightarrow> string" where
  "showInt i = (if i < 0 then CHR ''-'' # showNat (nat (- i)) else showNat (nat i))"

text \<open>
  A JavaScript \<open>Date\<close> is modelled by its local wall-clock reading: the number of the
  calendar day and the milliseconds elapsed since local midnight. \<open>addDays\<close> of date-fns
  moves the calendar day and keeps the time of day; \<open>setHours(h, m, s, ms)\<close> replaces the
  time of day; two dates compare by their time value. Time zones and daylight saving are
  outside the model.
\<close>

record jsdate =
  localDay :: int
  localMs :: int

definition addDays :: "jsdate \<Rightarrow> int \<Rightarrow> jsdate" where
  "addDays d amount = d\<lparr>localDay := localDay d + amount\<rparr>"

definition setHours :: "jsdate \<Rightarrow> int \<Rightarrow> int \<Rightarrow> int \<Rightarrow> int \<Rightarrow> jsdate" where
  "setHours d h m s ms = d\<lparr>localMs := ((h * 60 + m) * 60 + s) * 1000 + ms\<rparr>"

definition getTime :: "jsdate \<Rightarrow> int" where
  "getTime d = localDay d * 86400000 + localMs d"

text \<open>
  The handlers of the screens are asynchronous procedures that read and set the screen's
  state and talk to the outside: the store (\<open>fetch\<close>), the alert dialog, the console and
  the notification scheduler. A handler is modelled as a function from the answer of the
  store and the state before to the effects it emits, in order, and the state after.
  Request paths are relative to \<open>API_URL\<close>. The effect \<open>ScheduleNotification\<close> is a
  call of the scheduler, whether the scheduler then accepts the request or rejects it.
\<close>

datatype jsvalue = JString string | JNumber int

record notification =
  n_title :: string
  n_body :: string
  n_data :: "(string \<times> jsvalue) list"
  n_trigger :: jsdate

datatype effect =
    Alert string string
  | AlertThenBack string string
  | Fetch string string "(string \<times> jsvalue) list"
  | ScheduleNotification notification
  | ConsoleError string
  | Refetch

text \<open>
  The answer to a \<open>fetch\<close>: the promise rejects (\<open>NetworkError\<close>), or it resolves to a
  response with its \<open>ok\<close> flag and a body; the body is \<open>None\<close> when \<open>response.json()\<close>
  rejects.
\<close>

datatype 'a response = NetworkError | Response bool "'a option"

fun isFetch :: "effect \<Rightarrow> bool" where
  "isFetch (Fetch m p b) = True"
| "isFetch Refetch = True"
| "isFetch e = False"

fun scheduled :: "effect list \<Rightarrow> notification list" where
  "scheduled [] = []"
| "scheduled (ScheduleNotification n # es) = n # scheduled es"
| "scheduled (e # es) = scheduled es"

section \<open>The add-topic screen (add-topic.tsx)\<close>

record Subject =
  s_id :: string
  s_name :: string
  s_created_at :: string

record AddTopicScreen =
  subjects :: "Subject list"
  selectedSubjectId :: string
  topicName :: string
  topicNotes :: string
  showSubjectPicker :: bool
  loading :: bool

definition revisionDays :: "int list" where
  "revisionDays = [2, 7, 14]"

text \<open>
  The body of the \<open>for\<close> loop of \<open>scheduleNotifications\<close>, one round per day. The
  scheduler is the parameter \<open>accepts\<close>: whether the promise of
  \<open>Notifications.scheduleNotificationAsync\<close> resolves for a request. The call is awaited
  with no handler around it, so a request the scheduler rejects is the last effect of the
  loop and the rejection leaves the procedure. The result is the calls made, in order, and
  whether the procedure returned (\<open>True\<close>) or was left by a rejection (\<open>False\<close>).
\<close>

fun scheduleLoop ::
  "(notification \<Rightarrow> bool) \<Rightarrow> jsdate \<Rightarrow> string \<Rightarrow> string \<Rightarrow> int list \<Rightarrow> effect list \<times> bool" where
  "scheduleLoop accepts now tName sName [] = ([], True)"
| "scheduleLoop accepts now tName sName (day # days) =
     (let revisionDate = setHours (addDays now day) 9 0 0 0 in
      if getTime revisionDate > getTime now
      then
        let request =
              \<lparr>n_title = ''Time to revise: '' @ tName,
               n_body = ''Day '' @ showInt day @ '' revision for '' @ sName,
               n_data = [(''topicName'', JString tName), (''subjectName'', JString sName),
                         (''day'', JNumber day)],
               n_trigger = revisionDate\<rparr>
        in
          if accepts request
          then (ScheduleNotification request # fst (scheduleLoop accepts now tName sName days),
                snd (scheduleLoop accepts now tName sName days))
          else ([ScheduleNotification request], False)
      else scheduleLoop accepts now tName sName days)"

definition scheduleNotifications ::
  "string \<Rightarrow> (notification \<Rightarrow> bool) \<Rightarrow> jsdate \<Rightarrow> string \<Rightarrow> string \<Rightarrow> effect list \<times> bool" where
  "scheduleNotifications os accepts now tName sName =
     (if os = ''web'' then ([], True) else scheduleLoop accepts now tName sName revisionDays)"

text \<open>
  \<open>addTopic\<close>: \<open>os\<close> is \<open>Platform.OS\<close>, \<open>accepts\<close> the scheduler, \<open>now\<close> the clock read
  by \<open>scheduleNotifications\<close>, and the body of the store's answer is the \<open>detail\<close> field
  of the parsed JSON. The call of \<open>scheduleNotifications\<close> is inside the \<open>try\<close>, so a
  rejection of the scheduler reaches the \<open>catch\<close> and the success alert is not shown.
\<close>

definition addTopic ::
  "string \<Rightarrow> (notification \<Rightarrow> bool) \<Rightarrow> jsdate \<Rightarrow> string option response \<Rightarrow> AddTopicScreen
   \<Rightarrow> effect list \<times> AddTopicScreen" where
  "addTopic os accepts now resp st =
     (if selectedSubjectId st = [] then ([Alert ''Error'' ''Please select a subject''], st)
      else if trim (topicName st) = [] then ([Alert ''Error'' ''Please enter a topic name''], st)
      else
        let request = Fetch ''POST'' ''/api/topics''
              [(''subject_id'', JString (selectedSubjectId st)),
               (''name'', JString (trim (topicName st))),
               (''notes'', JString (trim (topicNotes st)))];
            caught = [ConsoleError ''Error adding topic:'', Alert ''Error'' ''Failed to add topic''];
            finished = st\<lparr>loading := False\<rparr>
        in
          (case resp of
             NetworkError \<Rightarrow> (request # caught, finished)
           | Response ok None \<Rightarrow> (request # caught, finished)
           | Response ok (Some detail) \<Rightarrow>
               if ok then
                 (case find (\<lambda>s. s_id s = selectedSubjectId st) (subjects st) of
                    None \<Rightarrow>
                      ([request,
                        AlertThenBack ''Success''
                          ''Topic added successfully with revision reminders!''],
                       finished)
                  | Some selectedSubject \<Rightarrow>
                      let reminders = scheduleNotifications os accepts now
                            (trim (topicName st)) (s_name selectedSubject)
                      in
                        if snd reminders
                        then (request # fst reminders @
                              [AlertThenBack ''Success''
                                 ''Topic added successfully with revision reminders!''],
                              finished)
                        else (request # fst reminders @ caught, finished))
               else
                 (request #
                  [Alert ''Error''
                     (case detail of
                        None \<Rightarrow> ''Failed to add topic''
                      | Some d \<Rightarrow> if d = [] then ''Failed to add topic'' else d)],
                  finished)))"

text \<open>The schedule preview rendered under the form: \<open>addDays(today, 2 | 7 | 14)\<close>.\<close>

definition schedulePreview :: "jsdate \<Rightarrow> jsdate list" where
  "schedulePreview today = [addDays today 2, addDays today 7, addDays today 14]"

section \<open>The subjects screen\<close>

text \<open>
  Of the screen's state, the fields that \<open>addSubject\<close> and \<open>updateSubject\<close> read or set.
  The call of \<open>fetchSubjects()\<close> after a success is the effect \<open>Refetch\<close>.
\<close>

record SubjectsScreen =
  modalVisible :: bool
  editModalVisible :: bool
  newSubjectName :: string
  editingSubject :: "Subject option"
  editSubjectName :: string

definition addSubject :: "unit response \<Rightarrow> SubjectsScreen \<Rightarrow> effect list \<times> SubjectsScreen" where
  "addSubject resp st =
     (if trim (newSubjectName st) = [] then ([Alert ''Error'' ''Please enter a subject name''], st)
      else
        let request = Fetch ''POST'' ''/api/subjects''
              [(''name'', JString (trim (newSubjectName st)))]
        in
          (case resp of
             NetworkError \<Rightarrow>
               ([request, ConsoleError ''Error adding subject:'',
                 Alert ''Error'' ''Failed to add subject''], st)
           | Response ok body \<Rightarrow>
               if ok then ([request, Refetch], st\<lparr>newSubjectName := [], modalVisible := False\<rparr>)
               else ([request, Alert ''Error'' ''Failed to add subject''], st)))"

definition updateSubject :: "unit response \<Rightarrow> SubjectsScreen \<Rightarrow> effect list \<times> SubjectsScreen" where
  "updateSubject resp st =
     (case (if trim (editSubjectName st) = [] then None else editingSubject st) of
        None \<Rightarrow> ([Alert ''Error'' ''Please enter a subject name''], st)
      | Some subject \<Rightarrow>
          let request = Fetch ''PUT'' (''/api/subjects/'' @ s_id subject)
                [(''name'', JString (trim (editSubjectName st)))]
          in
            (case resp of
               NetworkError \<Rightarrow>
                 ([request, ConsoleError ''Error updating subject:'',
                   Alert ''Error'' ''Failed to update subject''], st)
             | Response ok body \<Rightarrow>
                 if ok then
                   ([request, Refetch],
                    st\<lparr>editSubjectName := [], editingSubject := None, editModalVisible := False\<rparr>)
                 else ([request, Alert ''Error'' ''Failed to update subject''], st)))"

section \<open>The edit-topic screen (edit-topic/[id].tsx)\<close>

text \<open>
  Of the screen's state, the fields that \<open>updateTopic\<close> reads or sets; \<open>route_id\<close> is the
  \<open>id\<close> parameter of the route.
\<close>

record EditTopicScreen =
  route_id :: string
  edit_topicName :: string
  edit_notes :: string
  saving :: bool

definition updateTopic ::
  "string option response \<Rightarrow> EditTopicScreen \<Rightarrow> effect list \<times> EditTopicScreen" where
  "updateTopic resp st =
     (if trim (edit_topicName st) = [] then ([Alert ''Error'' ''Please enter a topic name''], st)
      else
        let request = Fetch ''PUT'' (''/api/topics/'' @ route_id st)
              [(''name'', JString (trim (edit_topicName st))),
               (''notes'', JString (trim (edit_notes st)))];
            caught = [ConsoleError ''Error updating topic:'',
                      Alert ''Error'' ''Failed to update topic''];
            finished = st\<lparr>saving := False\<rparr>
        in
          (case resp of
             NetworkError \<Rightarrow> (request # caught, finished)
           | Response ok body \<Rightarrow>
               if ok then ([request, AlertThenBack ''Success'' ''Topic updated successfully!''], finished)
               else
                 (case body of
                    None \<Rightarrow> (request # caught, finished)
                  | Some detail \<Rightarrow>
                      (request #
                       [Alert ''Error''
                          (case detail of
                             None \<Rightarrow> ''Failed to update topic''
                           | Some d \<Rightarrow> if d = [] then ''Failed to update topic'' else d)],
                       finished))))"

section \<open>The subject-detail screen (second half of edit-topic/[id].tsx)\<close>

text \<open>An entry of \<open>Topic['revision_dates']\<close>.\<close>

record RevisionDate =
  date :: string
  day_number :: int
  completed :: bool

text \<open>
  \<open>getNextRevision\<close>. The parameter \<open>parseTime\<close> is \<open>new Date(s).getTime()\<close>, the time
  value of a date string of the store; the strings are taken to be dates, so that the time
  value is a number. The comparator \<open>a - b\<close> on time values is then consistent and
  \<open>Array.prototype.sort\<close>, which is stable, returns the one stable ascending ordering,
  which is what \<open>sort_key\<close> computes. The sorted copy is the array made by \<open>filter\<close>, so
  the argument is left as it was.
\<close>

definition getNextRevision :: "(string \<Rightarrow> int) \<Rightarrow> RevisionDate list \<Rightarrow> RevisionDate option" where
  "getNextRevision parseTime revisionDates =
     (let incomplete = filter (\<lambda>rd. \<not> completed rd) revisionDates in
      if length incomplete = 0 then None
      else (case sort_key (\<lambda>rd. parseTime (date rd)) incomplete of
              [] \<Rightarrow> None
            | first # rest \<Rightarrow> Some first))"

definition getRevisionStatusColor :: "RevisionDate list \<Rightarrow> string" where
  "getRevisionStatusColor revisionDates =
     (let completedCount = length (filter (\<lambda>rd. completed rd) revisionDates) in
      if completedCount = 3 then ''#4ade80''
      else if completedCount \<ge> 1 then ''#f59e0b''
      else ''#3b82f6'')"

section \<open>The home screen (index.tsx)\<close>

record Revision =
  rev_id :: string
  topic_name :: string
  subject_name :: string
  subject_id :: string
  rev_notes :: string
  rev_day_number :: int
  revision_date :: string
  created_at :: "string option"

record HomeScreen =
  todayRevisions :: "Revision list"
  upcomingRevisions :: "Revision list"
  allRevisions :: "Revision list"
  refreshing :: bool
  home_loading :: bool
  selectedDate :: string
  selectedDateRevisions :: "Revision list"

text \<open>The state the screen starts in; \<open>todayStr\<close> is \<open>format(new Date(), 'yyyy-MM-dd')\<close>.\<close>

definition initialHomeScreen :: "string \<Rightarrow> HomeScreen" where
  "initialHomeScreen todayStr =
     \<lparr>todayRevisions = [], upcomingRevisions = [], allRevisions = [], refreshing = False,
      home_loading = True, selectedDate = todayStr, selectedDateRevisions = []\<rparr>"

text \<open>
  \<open>fetchRevisions\<close>: the two requests run under \<open>Promise.all\<close>, so one rejection is caught
  before any state is set; a body that does not parse is caught where it is read.
\<close>

definition fetchRevisions ::
  "string \<Rightarrow> Revision list response \<Rightarrow> Revision list response \<Rightarrow> HomeScreen \<Rightarrow> HomeScreen" where
  "fetchRevisions todayStr todayRes upcomingRes st =
     (case todayRes of
        NetworkError \<Rightarrow> st\<lparr>home_loading := False\<rparr>
      | Response todayOk todayBody \<Rightarrow>
          (case upcomingRes of
             NetworkError \<Rightarrow> st\<lparr>home_loading := False\<rparr>
           | Response upcomingOk upcomingBody \<Rightarrow>
               (case (if todayOk then todayBody else Some []) of
                  None \<Rightarrow> st\<lparr>home_loading := False\<rparr>
                | Some todayData \<Rightarrow>
                    let st1 = (if todayOk then st\<lparr>todayRevisions := todayData\<rparr> else st) in
                    (case (if upcomingOk then upcomingBody else Some []) of
                       None \<Rightarrow> st1\<lparr>home_loading := False\<rparr>
                     | Some upcomingData \<Rightarrow>
                         let st2 = (if upcomingOk then st1\<lparr>upcomingRevisions := upcomingData\<rparr>
                                    else st1);
                             combined = todayData @ upcomingData
                         in st2\<lparr>allRevisions := combined,
                                selectedDateRevisions :=
                                  filter (\<lambda>r. revision_date r = todayStr) combined,
                                home_loading := False\<rparr>))))"

definition markAsCompleted :: "unit response \<Rightarrow> string \<Rightarrow> int \<Rightarrow> effect list" where
  "markAsCompleted resp topicId dayNumber =
     (let request = Fetch ''POST'' ''/api/topics/complete-revision''
            [(''topic_id'', JString topicId), (''day_number'', JNumber dayNumber)]
      in
        (case resp of
           NetworkError \<Rightarrow>
             [request, ConsoleError ''Error marking revision as completed:'',
              Alert ''Error'' ''Failed to mark revision as completed'']
         | Response ok body \<Rightarrow>
             if ok then [request, Alert ''Success'' ''Revision marked as completed!'', Refetch]
             else [request, Alert ''Error'' ''Failed to mark revision as completed'']))"

text \<open>
  The markers handed to the calendar. A marker is an object whose properties may be
  absent; \<open>customStyles\<close> holds the border of its \<open>container\<close>. The objects \<open>dateCounts\<close>
  and \<open>marks\<close> are keyed by date strings: \<open>dateCounts\<close> keeps its keys in the order of
  their insertion, which is the order \<open>Object.keys\<close> lists them in, and \<open>marks\<close> is a map.
\<close>

record containerStyle =
  borderWidth :: nat
  borderColor :: string

record marker =
  marked :: "bool option"
  dotColor :: "string option"
  selected :: "bool option"
  selectedColor :: "string option"
  customStyles :: "containerStyle option"

fun countDate :: "(string \<times> nat) list \<Rightarrow> string \<Rightarrow> (string \<times> nat) list" where
  "countDate [] dateStr = [(dateStr, 1)]"
| "countDate ((k, n) # counts) dateStr =
     (if k = dateStr then (k, n + 1) # counts else (k, n) # countDate counts dateStr)"

definition dateCounts :: "Revision list \<Rightarrow> (string \<times> nat) list" where
  "dateCounts revisions =
     foldl (\<lambda>counts revision. countDate counts (revision_date revision)) [] revisions"

definition revisionMarks :: "string \<Rightarrow> string \<Rightarrow> string list \<Rightarrow> (string \<rightharpoonup> marker)" where
  "revisionMarks selDate todayStr keys =
     foldl (\<lambda>marks dateStr.
              marks(dateStr \<mapsto>
                \<lparr>marked = Some True,
                 dotColor = Some (if dateStr = todayStr then ''#4ade80'' else ''#3b82f6''),
                 selected = (if dateStr = selDate then Some True else None),
                 selectedColor = (if dateStr = selDate then Some ''#3b82f6'' else None),
                 customStyles = None\<rparr>))
           Map.empty keys"

definition markedDates :: "Revision list \<Rightarrow> string \<Rightarrow> string \<Rightarrow> (string \<rightharpoonup> marker)" where
  "markedDates revisions selDate todayStr =
     (let marks0 = revisionMarks selDate todayStr (map fst (dateCounts revisions));
          marks1 =
            (case marks0 selDate of
               None \<Rightarrow>
                 marks0(selDate \<mapsto>
                   \<lparr>marked = None, dotColor = None, selected = Some True,
                    selectedColor = Some ''#3b82f6'', customStyles = None\<rparr>)
             | Some m \<Rightarrow>
                 marks0(selDate \<mapsto> m\<lparr>selected := Some True, selectedColor := Some ''#3b82f6''\<rparr>));
          todayMark =
            (case marks1 todayStr of
               None \<Rightarrow>
                 \<lparr>marked = Some False, dotColor = None, selected = None,
                  selectedColor = None, customStyles = None\<rparr>
             | Some m \<Rightarrow> m)
      in marks1(todayStr \<mapsto>
           todayMark\<lparr>customStyles := Some \<lparr>borderWidth = 2, borderColor = ''#4ade80''\<rparr>\<rparr>))"

definition onDayPress :: "string \<Rightarrow> HomeScreen \<Rightarrow> HomeScreen" where
  "onDayPress dateString st =
     st\<lparr>selectedDate := dateString,
        selectedDateRevisions := filter (\<lambda>r. revision_date r = dateString) (allRevisions st)\<rparr>"

section \<open>The revision core behind the store\<close>

text \<open>
  Modelled from the spec: the data model of section 3 (checkpoint, topic with its subject
  resolved, revision record). The service that keeps it is not among the sources. A
  calendar date has date-only precision and is the number of its day, so that adding
  calendar days is addition.
\<close>

record Checkpoint =
  cp_day :: int
  cp_date :: int
  cp_completed :: bool

record Topic =
  t_id :: string
  t_subject_id :: string
  t_subject_name :: string
  t_name :: string
  t_notes :: string
  t_created_at :: int
  checkpoints :: "Checkpoint list"

record RevisionRecord =
  rr_date :: int
  rr_day :: int
  rr_completed :: bool
  rr_topic_id :: string
  rr_topic_name :: string
  rr_notes :: string
  rr_subject_id :: string
  rr_subject_name :: string

text \<open>
  Modelled from the spec: the invariant of a topic (section 3), an ordered set of exactly
  three checkpoints whose day offsets are exactly 2, 7 and 14.
\<close>

definition topicInvariant :: "Topic \<Rightarrow> bool" where
  "topicInvariant t =
     (length (checkpoints t) = 3 \<and> set (map cp_day (checkpoints t)) = {2, 7, 14})"

text \<open>
  Modelled from the spec: \<open>generate(creationDate)\<close> of the ScheduleGenerator (section 4.1),
  the checkpoints of day 2, 7 and 14, each dated the creation date plus its offset and
  not completed. The generator of the store is not among the sources.
\<close>

definition generate :: "int \<Rightarrow> Checkpoint list" where
  "generate creationDate =
     map (\<lambda>offset. \<lparr>cp_day = offset, cp_date = creationDate + offset, cp_completed = False\<rparr>)
       [2, 7, 14]"

text \<open>
  Modelled from the spec: the revision records of a topic (section 3), one per checkpoint,
  each joined to the topic and its subject.
\<close>

definition recordsOf :: "Topic \<Rightarrow> RevisionRecord list" where
  "recordsOf t =
     map (\<lambda>c. \<lparr>rr_date = cp_date c, rr_day = cp_day c, rr_completed = cp_completed c,
               rr_topic_id = t_id t, rr_topic_name = t_name t, rr_notes = t_notes t,
               rr_subject_id = t_subject_id t, rr_subject_name = t_subject_name t\<rparr>)
       (checkpoints t)"

definition allRecords :: "Topic list \<Rightarrow> RevisionRecord list" where
  "allRecords topics = concat (map recordsOf topics)"

text \<open>
  Modelled from the spec: the partitions of the RevisionAggregator (section 4.2), whose
  code is not among the sources. \<open>today\<close> holds every checkpoint dated the current day,
  whatever its completed flag; \<open>upcoming\<close> every checkpoint dated strictly after it, in
  ascending order of date, then subject name, then topic name; \<open>past\<close> is the remaining
  partition, the checkpoints dated before the current day.
\<close>

definition today :: "Topic list \<Rightarrow> int \<Rightarrow> RevisionRecord list" where
  "today topics now = filter (\<lambda>r. rr_date r = now) (allRecords topics)"

definition upcoming :: "Topic list \<Rightarrow> int \<Rightarrow> RevisionRecord list" where
  "upcoming topics now =
     sort_key (\<lambda>r. (rr_date r, rr_subject_name r, rr_topic_name r))
       (filter (\<lambda>r. now < rr_date r) (allRecords topics))"

definition past :: "Topic list \<Rightarrow> int \<Rightarrow> RevisionRecord list" where
  "past topics now = filter (\<lambda>r. rr_date r < now) (allRecords topics)"

text \<open>
  Modelled from the spec: \<open>markCompleted(topic, dayOffset)\<close> of section 4.3, which the
  store runs behind \<open>/api/topics/complete-revision\<close>; its code is not among the sources.
  It fails with \<open>InvalidCheckpoint\<close> when no checkpoint of the topic has the offset, and
  otherwise sets the completed flag of that checkpoint.
\<close>

datatype coreError = InvalidCheckpoint

definition markCompleted :: "Topic \<Rightarrow> int \<Rightarrow> coreError + Topic" where
  "markCompleted t dayOffset =
     (if dayOffset \<in> set (map cp_day (checkpoints t))
      then Inr (t\<lparr>checkpoints :=
                   map (\<lambda>c. if cp_day c = dayOffset then c\<lparr>cp_completed := True\<rparr> else c)
                     (checkpoints t)\<rparr>)
      else Inl InvalidCheckpoint)"

section \<open>Example data\<close>

text \<open>
  A clock reading of 10:00 on 2024-01-01 (day 19723 after 1970-01-01), a subject, and an
  add-topic form filled in for it.
\<close>

definition exampleNow :: jsdate where
  "exampleNow = \<lparr>localDay = 19723, localMs = 36000000\<rparr>"

definition exampleSubject :: Subject where
  "exampleSubject = \<lparr>s_id = ''s1'', s_name = ''Surgery'', s_created_at = ''2023-12-01''\<rparr>"

definition exampleForm :: AddTopicScreen where
  "exampleForm =
     \<lparr>subjects = [exampleSubject], selectedSubjectId = ''s1'',
      topicName = '' Bowel Obstruction '', topicNotes = [], showSubjectPicker = False,
      loading = False\<rparr>"

text \<open>Forms whose name field holds only white space.\<close>

definition blankForm :: AddTopicScreen where
  "blankForm = exampleForm\<lparr>topicName := ''   ''\<rparr>"

definition blankSubjects :: SubjectsScreen where
  "blankSubjects =
     \<lparr>modalVisible = True, editModalVisible = True, newSubjectName = '' '',
      editingSubject = Some exampleSubject, editSubjectName = []\<rparr>"

definition blankEdit :: EditTopicScreen where
  "blankEdit = \<lparr>route_id = ''t1'', edit_topicName = ''  '', edit_notes = ''n'', saving = False\<rparr>"

text \<open>
  Two topics of two subjects that both have a checkpoint dated 2024-01-03, and a later
  checkpoint of the first.
\<close>

definition revisionA :: Revision where
  "revisionA =
     \<lparr>rev_id = ''t1'', topic_name = ''Bowel Obstruction'', subject_name = ''Surgery'',
      subject_id = ''s1'', rev_notes = [], rev_day_number = 2,
      revision_date = ''2024-01-03'', created_at = None\<rparr>"

definition revisionB :: Revision where
  "revisionB =
     \<lparr>rev_id = ''t2'', topic_name = ''Heart Failure'', subject_name = ''Medicine'',
      subject_id = ''s2'', rev_notes = ''ECG'', rev_day_number = 7,
      revision_date = ''2024-01-03'', created_at = None\<rparr>"

definition revisionA7 :: Revision where
  "revisionA7 = revisionA\<lparr>rev_day_number := 7, revision_date := ''2024-01-08''\<rparr>"

text \<open>The time values of three date strings, in days; any other string is given 0.\<close>

definition exampleTime :: "string \<Rightarrow> int" where
  "exampleTime s =
     (if s = ''2024-01-03'' then 19725
      else if s = ''2024-01-08'' then 19730
      else if s = ''2024-01-15'' then 19737
      else 0)"

definition exampleDates :: "RevisionDate list" where
  "exampleDates =
     [\<lparr>date = ''2024-01-15'', day_number = 14, completed = False\<rparr>,
      \<lparr>date = ''2024-01-03'', day_number = 2, completed = True\<rparr>,
      \<lparr>date = ''2024-01-08'', day_number = 7, completed = False\<rparr>]"

text \<open>A topic of the core created on day 19723, before and after its day-2 revision.\<close>

definition exampleTopic :: Topic where
  "exampleTopic =
     \<lparr>t_id = ''t1'', t_subject_id = ''s1'', t_subject_name = ''Surgery'',
      t_name = ''Bowel Obstruction'', t_notes = [], t_created_at = 19723,
      checkpoints = generate 19723\<rparr>"

definition exampleTopicDone2 :: Topic where
  "exampleTopicDone2 =
     exampleTopic\<lparr>checkpoints :=
       [\<lparr>cp_day = 2, cp_date = 19725, cp_completed = True\<rparr>,
        \<lparr>cp_day = 7, cp_date = 19730, cp_completed = False\<rparr>,
        \<lparr>cp_day = 14, cp_date = 19737, cp_completed = False\<rparr>]\<rparr>"

section \<open>Auxiliary facts\<close>

lemma trim_blank: "(\<forall>c\<in>set s. isWhiteSpace c) \<Longrightarrow> trim s = []"
proof -
  assume "\<forall>c\<in>set s. isWhiteSpace c"
  then have d: "dropWhile isWhiteSpace s = []" by simp
  show ?thesis unfolding trim_def d by simp
qed

lemma trim_Nil_iff: "trim s = [] \<longleftrightarrow> (\<forall>c\<in>set s. isWhiteSpace c)"
proof
  assume e: "trim s = []"
  show "\<forall>c\<in>set s. isWhiteSpace c"
  proof (cases "dropWhile isWhiteSpace s")
    case Nil
    then show ?thesis by simp
  next
    case (Cons x xs)
    then have "\<not> isWhiteSpace x" by (metis hd_dropWhile list.sel(1) list.distinct(1))
    moreover from e have "\<forall>c\<in>set (dropWhile isWhiteSpace s). isWhiteSpace c"
      by (simp add: trim_def)
    ultimately show ?thesis using Cons by simp
  qed
qed (rule trim_blank)

lemma length_3_cases: "length rds = 3 \<Longrightarrow> \<exists>a b c. rds = [a, b, c]"
  by (auto simp: length_Suc_conv numeral_3_eq_3)

lemma sort_key_head_min:
  assumes "sort_key f xs = y # ys"
  shows "y \<in> set xs \<and> (\<forall>x\<in>set xs. f y \<le> f x)"
proof -
  have s: "set xs = set (y # ys)" using assms by (metis set_sort)
  have "sorted (map f (y # ys))" using assms by (metis sorted_sort_key)
  then have "\<forall>x\<in>set ys. f y \<le> f x" by simp
  with s show ?thesis by auto
qed

lemma countDate_keys: "fst ` set (countDate counts d) = insert d (fst ` set counts)"
  by (induction counts d rule: countDate.induct) auto

lemma foldl_countDate_keys:
  "fst ` set (foldl (\<lambda>counts revision. countDate counts (revision_date revision)) acc revs)
   = fst ` set acc \<union> revision_date ` set revs"
  by (induction revs arbitrary: acc) (simp_all add: countDate_keys)

lemma dateCounts_keys: "fst ` set (dateCounts revs) = revision_date ` set revs"
  by (simp add: dateCounts_def foldl_countDate_keys)

lemma foldl_marks:
  "foldl (\<lambda>marks dateStr. marks(dateStr \<mapsto> mk dateStr)) m0 keys k
   = (if k \<in> set keys then Some (mk k) else m0 k)"
  by (induction keys arbitrary: m0) auto

lemma revisionMarks_apply:
  "revisionMarks selDate todayStr keys k =
     (if k \<in> set keys
      then Some \<lparr>marked = Some True,
                 dotColor = Some (if k = todayStr then ''#4ade80'' else ''#3b82f6''),
                 selected = (if k = selDate then Some True else None),
                 selectedColor = (if k = selDate then Some ''#3b82f6'' else None),
                 customStyles = None\<rparr>
      else None)"
  unfolding revisionMarks_def by (subst foldl_marks) simp

lemma scheduled_append: "scheduled (xs @ ys) = scheduled xs @ scheduled ys"
  by (induction xs rule: scheduled.induct) simp_all

lemma scheduled_calls: "scheduled (map ScheduleNotification ns) = ns"
  by (induction ns) simp_all

lemma trigger_in_future:
  assumes "localMs now < 86400000" and "1 \<le> day"
  shows "getTime now < getTime (setHours (addDays now day) 9 0 0 0)"
proof -
  have "86400000 \<le> day * 86400000" using assms(2) by simp
  then show ?thesis using assms(1) by (simp add: getTime_def setHours_def addDays_def algebra_simps)
qed

lemma scheduleLoop_calls:
  "scheduleLoop accepts now tn sn days =
     (let ns = map (\<lambda>day. \<lparr>n_title = ''Time to revise: '' @ tn,
                            n_body = ''Day '' @ showInt day @ '' revision for '' @ sn,
                            n_data = [(''topicName'', JString tn), (''subjectName'', JString sn),
                                      (''day'', JNumber day)],
                            n_trigger = setHours (addDays now day) 9 0 0 0\<rparr>)
                (filter (\<lambda>day. getTime now < getTime (setHours (addDays now day) 9 0 0 0)) days)
      in (map ScheduleNotification (takeWhile accepts ns @ take 1 (dropWhile accepts ns)),
          list_all accepts ns))"
  by (induction days) (simp_all add: Let_def)

lemma mset_three_way:
  fixes now :: int
  shows "mset (filter (\<lambda>r. d r = now) xs) + mset (filter (\<lambda>r. now < d r) xs)
           + mset (filter (\<lambda>r. d r < now) xs) = mset xs"
  by (induction xs) auto

lemma length_allRecords:
  "\<forall>t\<in>set topics. length (checkpoints t) = 3 \<Longrightarrow> length (allRecords topics) = 3 * length topics"
  by (induction topics) (simp_all add: allRecords_def recordsOf_def)

lemma selectedDate_presses:
  "selectedDate (fold onDayPress ds st) = (if ds = [] then selectedDate st else last ds)"
  by (induction ds arbitrary: st) (simp_all add: onDayPress_def)

lemma selectedDate_fetchRevisions:
  "selectedDate (fetchRevisions todayStr todayRes upcomingRes st) = selectedDate st"
  by (simp add: fetchRevisions_def Let_def split: response.splits option.splits)

lemma mark_twice:
  "map (\<lambda>c. if cp_day c = d then c\<lparr>cp_completed := True\<rparr> else c)
     (map (\<lambda>c. if cp_day c = d then c\<lparr>cp_completed := True\<rparr> else c) cps)
   = map (\<lambda>c. if cp_day c = d then c\<lparr>cp_completed := True\<rparr> else c) cps"
  by (induction cps) simp_all

lemma mark_days:
  "map cp_day (map (\<lambda>c. if cp_day c = d then c\<lparr>cp_completed := True\<rparr> else c) cps)
   = map cp_day cps"
  by (induction cps) simp_all

lemma mark_flag:
  assumes "c \<in> set (map (\<lambda>c. if cp_day c = d then c\<lparr>cp_completed := True\<rparr> else c) cps)"
    and eq: "cp_day c = d"
  shows "cp_completed c"
proof -
  from assms(1) obtain c0 where c: "c = (if cp_day c0 = d then c0\<lparr>cp_completed := True\<rparr> else c0)"
    unfolding set_map by blast
  show ?thesis
  proof (cases "cp_day c0 = d")
    case True
    have "c = c0\<lparr>cp_completed := True\<rparr>" by (simp only: c True simp_thms if_True)
    then show ?thesis by simp
  next
    case False
    have "c = c0" by (simp only: c False simp_thms if_False)
    with eq False show ?thesis by blast
  qed
qed

lemma mark_noop:
  "\<forall>c\<in>set cps. cp_day c = d \<longrightarrow> cp_completed c \<Longrightarrow>
   map (\<lambda>c. if cp_day c = d then c\<lparr>cp_completed := True\<rparr> else c) cps = cps"
  by (induction cps) simp_all

lemma named_reaches_store:
  "trim (newSubjectName s1) \<noteq> [] \<Longrightarrow>
     \<exists>es. fst (addSubject r1 s1)
       = Fetch ''POST'' ''/api/subjects'' [(''name'', JString (trim (newSubjectName s1)))] # es"
  "trim (editSubjectName s2) \<noteq> [] \<Longrightarrow> editingSubject s2 = Some subj \<Longrightarrow>
     \<exists>es. fst (updateSubject r2 s2)
       = Fetch ''PUT'' (''/api/subjects/'' @ s_id subj)
           [(''name'', JString (trim (editSubjectName s2)))] # es"
  "trim (topicName s3) \<noteq> [] \<Longrightarrow> selectedSubjectId s3 \<noteq> [] \<Longrightarrow>
     \<exists>es. fst (addTopic os accepts now r3 s3)
       = Fetch ''POST'' ''/api/topics''
           [(''subject_id'', JString (selectedSubjectId s3)),
            (''name'', JString (trim (topicName s3))),
            (''notes'', JString (trim (topicNotes s3)))] # es"
  "trim (edit_topicName s4) \<noteq> [] \<Longrightarrow>
     \<exists>es. fst (updateTopic r4 s4)
       = Fetch ''PUT'' (''/api/topics/'' @ route_id s4)
           [(''name'', JString (trim (edit_topicName s4))),
            (''notes'', JString (trim (edit_notes s4)))] # es"
  by (simp_all add: addSubject_def updateSubject_def addTopic_def updateTopic_def Let_def
        split: response.splits option.splits)

lemma markAsCompleted_request:
  "\<exists>es. markAsCompleted resp topicId dayNumber
     = Fetch ''POST'' ''/api/topics/complete-revision''
         [(''topic_id'', JString topicId), (''day_number'', JNumber dayNumber)] # es
     \<and> (Refetch \<in> set es \<longleftrightarrow> (\<exists>body. resp = Response True body))"
  by (cases resp) (auto simp: markAsCompleted_def Let_def)

section \<open>The claims\<close>

text \<open>
  C1. For every creation date \<open>d\<close>, schedule generation yields exactly three checkpoints,
  with day offsets 2, 7 and 14, dated \<open>d + 2\<close>, \<open>d + 7\<close> and \<open>d + 14\<close>, none of them
  completed. The offsets are the \<open>revisionDays\<close> of add-topic.tsx and the dates fall on
  the days its schedule preview shows.
\<close>

theorem generate_schedule:
  "generate d =
     [\<lparr>cp_day = 2, cp_date = d + 2, cp_completed = False\<rparr>,
      \<lparr>cp_day = 7, cp_date = d + 7, cp_completed = False\<rparr>,
      \<lparr>cp_day = 14, cp_date = d + 14, cp_completed = False\<rparr>]
   \<and> length (generate d) = 3
   \<and> map cp_day (generate d) = revisionDays
   \<and> map cp_date (generate (localDay now)) = map localDay (schedulePreview now)"
  by (simp add: generate_def revisionDays_def schedulePreview_def addDays_def)

text \<open>
  C2. For a topic with three checkpoints, the status colour is that of COMPLETE
  (\<open>#4ade80\<close>) exactly when all three are completed, that of NONE (\<open>#3b82f6\<close>) exactly
  when none is, and that of PARTIAL (\<open>#f59e0b\<close>) exactly when some but not all are.
\<close>

theorem status_trichotomy:
  assumes "length rds = 3"
  shows "(getRevisionStatusColor rds = ''#4ade80'' \<longleftrightarrow> (\<forall>rd\<in>set rds. completed rd))
       \<and> (getRevisionStatusColor rds = ''#3b82f6'' \<longleftrightarrow> (\<forall>rd\<in>set rds. \<not> completed rd))
       \<and> (getRevisionStatusColor rds = ''#f59e0b'' \<longleftrightarrow>
            (\<exists>rd\<in>set rds. completed rd) \<and> (\<exists>rd\<in>set rds. \<not> completed rd))"
proof -
  from assms obtain a b c where "rds = [a, b, c]" using length_3_cases by blast
  then show ?thesis by (auto simp: getRevisionStatusColor_def)
qed

theorem status_trichotomy_witness:
  "getRevisionStatusColor exampleDates = ''#f59e0b''
   \<and> getRevisionStatusColor (map (\<lambda>rd. rd\<lparr>completed := True\<rparr>) exampleDates) = ''#4ade80''
   \<and> getRevisionStatusColor (map (\<lambda>rd. rd\<lparr>completed := False\<rparr>) exampleDates) = ''#3b82f6''"
  using status_trichotomy [of exampleDates]
    status_trichotomy [of "map (\<lambda>rd. rd\<lparr>completed := True\<rparr>) exampleDates"]
    status_trichotomy [of "map (\<lambda>rd. rd\<lparr>completed := False\<rparr>) exampleDates"]
  by (simp add: exampleDates_def)

text \<open>
  C3. Whatever the records, the selected date and today's date, the marker map has an entry
  for the selected date and an entry for today, also when there is no record (then these
  are its only entries), and the date of every record has an entry whose \<open>marked\<close> flag is
  set.
\<close>

theorem calendar_index:
  "selDate \<in> dom (markedDates revs selDate todayStr)
   \<and> todayStr \<in> dom (markedDates revs selDate todayStr)
   \<and> (\<forall>r\<in>set revs. \<exists>m. markedDates revs selDate todayStr (revision_date r) = Some m
                          \<and> marked m = Some True)
   \<and> dom (markedDates [] selDate todayStr) = {selDate, todayStr}"
proof (intro conjI)
  show "selDate \<in> dom (markedDates revs selDate todayStr)"
    by (auto simp: markedDates_def Let_def split: option.splits)
  show "todayStr \<in> dom (markedDates revs selDate todayStr)"
    by (auto simp: markedDates_def Let_def)
  show "\<forall>r\<in>set revs. \<exists>m. markedDates revs selDate todayStr (revision_date r) = Some m
                          \<and> marked m = Some True"
    by (auto simp: markedDates_def Let_def revisionMarks_apply dateCounts_keys
             split: option.splits if_splits)
  show "dom (markedDates [] selDate todayStr) = {selDate, todayStr}"
    by (auto simp: markedDates_def Let_def revisionMarks_apply dateCounts_keys dom_def
             split: option.splits if_splits)
qed

theorem calendar_index_witness:
  "markedDates [revisionA, revisionB, revisionA7] ''2024-01-05'' ''2024-01-03'' ''2024-01-08''
     = Some \<lparr>marked = Some True, dotColor = Some ''#3b82f6'', selected = None,
             selectedColor = None, customStyles = None\<rparr>
   \<and> markedDates [revisionA, revisionB, revisionA7] ''2024-01-05'' ''2024-01-03'' ''2024-01-03''
     = Some \<lparr>marked = Some True, dotColor = Some ''#4ade80'', selected = None,
             selectedColor = None,
             customStyles = Some \<lparr>borderWidth = 2, borderColor = ''#4ade80''\<rparr>\<rparr>
   \<and> ''2024-01-05'' \<in> dom (markedDates [revisionA, revisionB, revisionA7] ''2024-01-05'' ''2024-01-03'')
   \<and> dom (markedDates [] ''2024-01-05'' ''2024-01-03'') = {''2024-01-05'', ''2024-01-03''}"
  using calendar_index [of "''2024-01-05''" "[revisionA, revisionB, revisionA7]" "''2024-01-03''"]
  by (simp add: markedDates_def revisionMarks_def dateCounts_def revisionA_def revisionB_def
        revisionA7_def Let_def)

text \<open>
  C4. When every topic has its three checkpoints, the today, upcoming and past partitions
  together hold the records of all topics, each record once (as multisets), three per
  topic and \<open>3 * |topics|\<close> in all, whatever the completed flags are.
\<close>

theorem partition_complete:
  assumes "\<forall>t\<in>set topics. length (checkpoints t) = 3"
  shows "mset (today topics now @ upcoming topics now @ past topics now) = mset (allRecords topics)
       \<and> length (today topics now @ upcoming topics now @ past topics now) = 3 * length topics
       \<and> (\<forall>t\<in>set topics. length (recordsOf t) = 3)"
proof -
  have m: "mset (today topics now @ upcoming topics now @ past topics now) = mset (allRecords topics)"
    using mset_three_way [of rr_date now "allRecords topics"]
    by (simp add: today_def upcoming_def past_def add.assoc)
  have "length (today topics now @ upcoming topics now @ past topics now)
          = size (mset (today topics now @ upcoming topics now @ past topics now))"
    by (simp only: size_mset)
  also have "\<dots> = length (allRecords topics)" by (simp only: m size_mset)
  finally have l: "length (today topics now @ upcoming topics now @ past topics now)
          = 3 * length topics"
    using assms by (simp add: length_allRecords)
  from assms have "\<forall>t\<in>set topics. length (recordsOf t) = 3" by (simp add: recordsOf_def)
  with m l show ?thesis by blast
qed

theorem partition_complete_witness:
  "length (today [exampleTopic, exampleTopicDone2] 19730 @ upcoming [exampleTopic, exampleTopicDone2] 19730
           @ past [exampleTopic, exampleTopicDone2] 19730) = 6
   \<and> map rr_completed (past [exampleTopic, exampleTopicDone2] 19730) = [False, True]
   \<and> map rr_day (today [exampleTopic, exampleTopicDone2] 19730) = [7, 7]"
  using partition_complete [of "[exampleTopic, exampleTopicDone2]" 19730]
  by (simp add: exampleTopic_def exampleTopicDone2_def generate_def today_def past_def
        allRecords_def recordsOf_def)

text \<open>
  C5. Pressing a day \<open>d\<close> selects exactly the records of the combined set whose revision
  date is \<open>d\<close>, the combined set being the today records followed by the upcoming records.
  When two topics both have a checkpoint dated 2024-01-03 (and one of them a later one),
  pressing 2024-01-03 yields two records, one per topic, with their subject and topic names.
\<close>

theorem forDate_exact:
  "selectedDateRevisions (onDayPress d st) = filter (\<lambda>r. revision_date r = d) (allRevisions st)
   \<and> set (selectedDateRevisions (onDayPress d st)) = {r \<in> set (allRevisions st). revision_date r = d}
   \<and> allRevisions (fetchRevisions todayStr (Response True (Some todayData))
        (Response True (Some upcomingData)) st) = todayData @ upcomingData
   \<and> map (\<lambda>r. (rev_id r, subject_name r, topic_name r))
        (selectedDateRevisions
          (onDayPress ''2024-01-03''
             (fetchRevisions ''2024-01-03'' (Response True (Some [revisionA, revisionB]))
                (Response True (Some [revisionA7])) (initialHomeScreen ''2024-01-03''))))
       = [(''t1'', ''Surgery'', ''Bowel Obstruction''), (''t2'', ''Medicine'', ''Heart Failure'')]"
proof (intro conjI)
  show "selectedDateRevisions (onDayPress d st)
          = filter (\<lambda>r. revision_date r = d) (allRevisions st)"
    by (simp add: onDayPress_def)
  show "set (selectedDateRevisions (onDayPress d st))
          = {r \<in> set (allRevisions st). revision_date r = d}"
    by (simp add: onDayPress_def)
  show "allRevisions (fetchRevisions todayStr (Response True (Some todayData))
        (Response True (Some upcomingData)) st) = todayData @ upcomingData"
    by (simp add: fetchRevisions_def)
  show "map (\<lambda>r. (rev_id r, subject_name r, topic_name r))
        (selectedDateRevisions
          (onDayPress ''2024-01-03''
             (fetchRevisions ''2024-01-03'' (Response True (Some [revisionA, revisionB]))
                (Response True (Some [revisionA7])) (initialHomeScreen ''2024-01-03''))))
       = [(''t1'', ''Surgery'', ''Bowel Obstruction''), (''t2'', ''Medicine'', ''Heart Failure'')]"
    by (simp add: onDayPress_def fetchRevisions_def revisionA_def revisionB_def revisionA7_def)
qed

text \<open>
  C6. \<open>markCompleted\<close> fails with \<open>InvalidCheckpoint\<close> when no checkpoint of the topic has
  the day offset, so for every offset other than 2, 7 and 14 on a topic that keeps its
  invariant. Otherwise it returns the topic with that checkpoint completed and the offsets
  as they were; marking the result again returns the same topic, and marking a checkpoint
  that is already completed returns the topic unchanged.
\<close>

theorem markCompleted_idempotent:
  "(dayOffset \<notin> set (map cp_day (checkpoints t)) \<longrightarrow>
      markCompleted t dayOffset = Inl InvalidCheckpoint)
   \<and> (topicInvariant t \<and> dayOffset \<notin> {2, 7, 14} \<longrightarrow>
      markCompleted t dayOffset = Inl InvalidCheckpoint)
   \<and> (dayOffset \<in> set (map cp_day (checkpoints t)) \<longrightarrow>
      (\<exists>t'. markCompleted t dayOffset = Inr t'
         \<and> (\<forall>c\<in>set (checkpoints t'). cp_day c = dayOffset \<longrightarrow> cp_completed c)
         \<and> map cp_day (checkpoints t') = map cp_day (checkpoints t)
         \<and> markCompleted t' dayOffset = Inr t'
         \<and> ((\<forall>c\<in>set (checkpoints t). cp_day c = dayOffset \<longrightarrow> cp_completed c) \<longrightarrow> t' = t)))"
proof (intro conjI impI)
  assume "dayOffset \<notin> set (map cp_day (checkpoints t))"
  then show "markCompleted t dayOffset = Inl InvalidCheckpoint"
    by (simp add: markCompleted_def)
next
  assume "topicInvariant t \<and> dayOffset \<notin> {2, 7, 14}"
  then have "dayOffset \<notin> set (map cp_day (checkpoints t))"
    by (simp add: topicInvariant_def)
  then show "markCompleted t dayOffset = Inl InvalidCheckpoint"
    by (simp add: markCompleted_def)
next
  assume mem: "dayOffset \<in> set (map cp_day (checkpoints t))"
  define cps' where
    "cps' = map (\<lambda>c. if cp_day c = dayOffset then c\<lparr>cp_completed := True\<rparr> else c) (checkpoints t)"
  define t' where "t' = t\<lparr>checkpoints := cps'\<rparr>"
  have sel: "checkpoints t' = cps'" by (simp add: t'_def)
  have r: "markCompleted t dayOffset = Inr t'"
    unfolding markCompleted_def t'_def cps'_def using mem by (simp only: if_True)
  have days: "map cp_day (checkpoints t') = map cp_day (checkpoints t)"
    by (simp only: sel cps'_def mark_days)
  have flag: "\<forall>c\<in>set (checkpoints t'). cp_day c = dayOffset \<longrightarrow> cp_completed c"
    unfolding sel cps'_def using mark_flag by blast
  have "map (\<lambda>c. if cp_day c = dayOffset then c\<lparr>cp_completed := True\<rparr> else c) (checkpoints t')
          = cps'"
    by (simp only: sel cps'_def mark_twice)
  moreover have "t'\<lparr>checkpoints := cps'\<rparr> = t'" by (simp add: t'_def)
  ultimately have again: "markCompleted t' dayOffset = Inr t'"
    unfolding markCompleted_def using mem by (simp only: days if_True)
  have noop: "(\<forall>c\<in>set (checkpoints t). cp_day c = dayOffset \<longrightarrow> cp_completed c) \<longrightarrow> t' = t"
  proof
    assume "\<forall>c\<in>set (checkpoints t). cp_day c = dayOffset \<longrightarrow> cp_completed c"
    then have "cps' = checkpoints t" unfolding cps'_def by (rule mark_noop)
    then show "t' = t" by (simp add: t'_def)
  qed
  from r flag days again noop
  show "\<exists>t'. markCompleted t dayOffset = Inr t'
         \<and> (\<forall>c\<in>set (checkpoints t'). cp_day c = dayOffset \<longrightarrow> cp_completed c)
         \<and> map cp_day (checkpoints t') = map cp_day (checkpoints t)
         \<and> markCompleted t' dayOffset = Inr t'
         \<and> ((\<forall>c\<in>set (checkpoints t). cp_day c = dayOffset \<longrightarrow> cp_completed c) \<longrightarrow> t' = t)"
    by blast
qed

theorem markCompleted_idempotent_witness:
  "markCompleted exampleTopic 5 = Inl InvalidCheckpoint
   \<and> topicInvariant exampleTopic
   \<and> markCompleted exampleTopic 2 = Inr exampleTopicDone2
   \<and> markCompleted exampleTopicDone2 2 = Inr exampleTopicDone2"
  using markCompleted_idempotent [of 5 exampleTopic] markCompleted_idempotent [of 2 exampleTopic]
    markCompleted_idempotent [of 2 exampleTopicDone2]
  by (simp add: exampleTopic_def exampleTopicDone2_def generate_def topicInvariant_def
        markCompleted_def)

text \<open>
  C7. The home screen starts with today's date selected, pressing a day makes that day the
  selected date (after a series of presses, the last one), and a refresh leaves the
  selection alone. In the marker map built for a selected date, the entries that carry the
  \<open>selected\<close> flag are exactly the one of that date, so a marker map built after a press
  no longer flags the date selected before.
\<close>

theorem single_selection:
  "{k. \<exists>m. markedDates revs selDate todayStr k = Some m \<and> selected m = Some True} = {selDate}
   \<and> selectedDate (initialHomeScreen todayStr) = todayStr
   \<and> selectedDate (onDayPress newDate st) = newDate
   \<and> selectedDate (fold onDayPress (ds @ [newDate]) st) = newDate
   \<and> selectedDate (fetchRevisions todayStr todayRes upcomingRes st) = selectedDate st"
proof (intro conjI)
  show "{k. \<exists>m. markedDates revs selDate todayStr k = Some m \<and> selected m = Some True}
          = {selDate}"
    by (auto simp: markedDates_def Let_def revisionMarks_apply dateCounts_keys
             split: option.splits if_splits)
  show "selectedDate (initialHomeScreen todayStr) = todayStr"
    by (simp add: initialHomeScreen_def)
  show "selectedDate (onDayPress newDate st) = newDate"
    by (simp add: onDayPress_def)
  show "selectedDate (fold onDayPress (ds @ [newDate]) st) = newDate"
    by (simp only: selectedDate_presses) simp
  show "selectedDate (fetchRevisions todayStr todayRes upcomingRes st) = selectedDate st"
    by (rule selectedDate_fetchRevisions)
qed

text \<open>
  C8. A subject or topic that is created or updated with a name made of white space only
  (or empty) is rejected locally: the handler shows an error alert as its only effect, so
  no request reaches the store, and the screen's state is the state before.
\<close>

theorem blank_name_rejected:
  "((\<forall>c\<in>set (newSubjectName s1). isWhiteSpace c) \<longrightarrow>
      addSubject r1 s1 = ([Alert ''Error'' ''Please enter a subject name''], s1))
   \<and> ((\<forall>c\<in>set (editSubjectName s2). isWhiteSpace c) \<longrightarrow>
      updateSubject r2 s2 = ([Alert ''Error'' ''Please enter a subject name''], s2))
   \<and> ((\<forall>c\<in>set (topicName s3). isWhiteSpace c) \<longrightarrow>
      addTopic os accepts now r3 s3 =
        ([Alert ''Error'' (if selectedSubjectId s3 = [] then ''Please select a subject''
                           else ''Please enter a topic name'')], s3))
   \<and> ((\<forall>c\<in>set (edit_topicName s4). isWhiteSpace c) \<longrightarrow>
      updateTopic r4 s4 = ([Alert ''Error'' ''Please enter a topic name''], s4))"
proof (intro conjI impI)
  assume "\<forall>c\<in>set (newSubjectName s1). isWhiteSpace c"
  then have "trim (newSubjectName s1) = []" by (rule trim_blank)
  then show "addSubject r1 s1 = ([Alert ''Error'' ''Please enter a subject name''], s1)"
    by (simp add: addSubject_def)
next
  assume "\<forall>c\<in>set (editSubjectName s2). isWhiteSpace c"
  then have "trim (editSubjectName s2) = []" by (rule trim_blank)
  then show "updateSubject r2 s2 = ([Alert ''Error'' ''Please enter a subject name''], s2)"
    by (simp add: updateSubject_def)
next
  assume "\<forall>c\<in>set (topicName s3). isWhiteSpace c"
  then have "trim (topicName s3) = []" by (rule trim_blank)
  then show "addTopic os accepts now r3 s3 =
        ([Alert ''Error'' (if selectedSubjectId s3 = [] then ''Please select a subject''
                           else ''Please enter a topic name'')], s3)"
    by (simp add: addTopic_def)
next
  assume "\<forall>c\<in>set (edit_topicName s4). isWhiteSpace c"
  then have "trim (edit_topicName s4) = []" by (rule trim_blank)
  then show "updateTopic r4 s4 = ([Alert ''Error'' ''Please enter a topic name''], s4)"
    by (simp add: updateTopic_def)
qed

theorem blank_name_rejected_witness:
  "addSubject NetworkError blankSubjects
       = ([Alert ''Error'' ''Please enter a subject name''], blankSubjects)
   \<and> updateSubject (Response True None) blankSubjects
       = ([Alert ''Error'' ''Please enter a subject name''], blankSubjects)
   \<and> addTopic ''ios'' (\<lambda>n. True) exampleNow (Response True (Some None)) blankForm
       = ([Alert ''Error'' ''Please enter a topic name''], blankForm)
   \<and> updateTopic (Response True None) blankEdit
       = ([Alert ''Error'' ''Please enter a topic name''], blankEdit)"
  using blank_name_rejected [of blankSubjects NetworkError blankSubjects "Response True None"
      blankForm "''ios''" "\<lambda>n. True" exampleNow "Response True (Some None)" blankEdit "Response True None"]
  by (simp add: blankSubjects_def blankForm_def blankEdit_def exampleForm_def isWhiteSpace_def)

text \<open>
  C9, as the claim states it, fails on the web platform: a topic is created with a subject
  selected and a name, the store accepts it, the scheduler would accept every request, the
  three trigger dates (09:00 on day 2, 7 and 14) are strictly in the future, and no
  notification is scheduled.
\<close>

theorem web_no_notification:
  "fst (addTopic ''web'' (\<lambda>n. True) exampleNow (Response True (Some None)) exampleForm)
     = [Fetch ''POST'' ''/api/topics''
          [(''subject_id'', JString ''s1''), (''name'', JString ''Bowel Obstruction''),
           (''notes'', JString [])],
        AlertThenBack ''Success'' ''Topic added successfully with revision reminders!'']
   \<and> scheduled (fst (addTopic ''web'' (\<lambda>n. True) exampleNow (Response True (Some None))
                       exampleForm)) = []
   \<and> getTime exampleNow < getTime (setHours (addDays exampleNow 2) 9 0 0 0)
   \<and> getTime exampleNow < getTime (setHours (addDays exampleNow 7) 9 0 0 0)
   \<and> getTime exampleNow < getTime (setHours (addDays exampleNow 14) 9 0 0 0)"
  by (simp add: addTopic_def scheduleNotifications_def exampleForm_def exampleSubject_def
        exampleNow_def getTime_def setHours_def addDays_def Let_def trim_def isWhiteSpace_def)

text \<open>
  C9, amended. No notification is scheduled on the web platform, nor when the answer of the
  store is not an ok response with a body that parses, nor when the selected subject is
  not among the loaded subjects. Otherwise, on another platform, \<open>addTopic\<close> sends the
  request to the store and then calls the scheduler for the days 2, 7 and 14 whose trigger
  date (09:00 on that day) is strictly after the moment of creation, in this order, each
  call with its title, body and trigger date, and for no other day. The calls go on while
  the scheduler accepts them: a call it rejects is the last one, and the creation is then
  reported as failed instead of succeeded. When the scheduler accepts every call there is
  one call for each such day, and for a clock reading within a day these are all three.
\<close>

theorem notifications_scheduled:
  "scheduled (fst (addTopic ''web'' accepts now resp st)) = []
   \<and> ((\<forall>detail. resp \<noteq> Response True (Some detail)) \<longrightarrow>
        scheduled (fst (addTopic os accepts now resp st)) = [])
   \<and> (find (\<lambda>s. s_id s = selectedSubjectId st) (subjects st) = None \<longrightarrow>
        scheduled (fst (addTopic os accepts now resp st)) = [])
   \<and> (os \<noteq> ''web'' \<and> selectedSubjectId st \<noteq> [] \<and> trim (topicName st) \<noteq> []
        \<and> find (\<lambda>s. s_id s = selectedSubjectId st) (subjects st) = Some subj \<longrightarrow>
      (let ns = map (\<lambda>day. \<lparr>n_title = ''Time to revise: '' @ trim (topicName st),
                             n_body = ''Day '' @ showInt day @ '' revision for '' @ s_name subj,
                             n_data = [(''topicName'', JString (trim (topicName st))),
                                       (''subjectName'', JString (s_name subj)),
                                       (''day'', JNumber day)],
                             n_trigger = setHours (addDays now day) 9 0 0 0\<rparr>)
                  (filter (\<lambda>day. getTime now < getTime (setHours (addDays now day) 9 0 0 0))
                     [2, 7, 14])
       in fst (addTopic os accepts now (Response True (Some detail)) st)
            = Fetch ''POST'' ''/api/topics''
                [(''subject_id'', JString (selectedSubjectId st)),
                 (''name'', JString (trim (topicName st))),
                 (''notes'', JString (trim (topicNotes st)))]
              # map ScheduleNotification (takeWhile accepts ns @ take 1 (dropWhile accepts ns))
              @ (if list_all accepts ns
                 then [AlertThenBack ''Success''
                         ''Topic added successfully with revision reminders!'']
                 else [ConsoleError ''Error adding topic:'',
                       Alert ''Error'' ''Failed to add topic''])
          \<and> scheduled (fst (addTopic os accepts now (Response True (Some detail)) st))
            = takeWhile accepts ns @ take 1 (dropWhile accepts ns)
          \<and> (list_all accepts ns \<longrightarrow>
               scheduled (fst (addTopic os accepts now (Response True (Some detail)) st)) = ns)
          \<and> (localMs now < 86400000 \<longrightarrow> length ns = 3)))"
proof (intro conjI impI)
  show "scheduled (fst (addTopic ''web'' accepts now resp st)) = []"
    by (simp add: addTopic_def scheduleNotifications_def Let_def scheduled_append
             split: response.splits option.splits)
next
  assume "\<forall>detail. resp \<noteq> Response True (Some detail)"
  then show "scheduled (fst (addTopic os accepts now resp st)) = []"
    by (simp add: addTopic_def Let_def split: response.splits option.splits)
next
  assume "find (\<lambda>s. s_id s = selectedSubjectId st) (subjects st) = None"
  then show "scheduled (fst (addTopic os accepts now resp st)) = []"
    by (simp add: addTopic_def Let_def split: response.splits option.splits)
next
  let ?ns = "map (\<lambda>day. \<lparr>n_title = ''Time to revise: '' @ trim (topicName st),
                             n_body = ''Day '' @ showInt day @ '' revision for '' @ s_name subj,
                             n_data = [(''topicName'', JString (trim (topicName st))),
                                       (''subjectName'', JString (s_name subj)),
                                       (''day'', JNumber day)],
                             n_trigger = setHours (addDays now day) 9 0 0 0\<rparr>)
                  (filter (\<lambda>day. getTime now < getTime (setHours (addDays now day) 9 0 0 0))
                     [2, 7, 14])"
  let ?calls = "takeWhile accepts ?ns @ take 1 (dropWhile accepts ?ns)"
  assume a: "os \<noteq> ''web'' \<and> selectedSubjectId st \<noteq> [] \<and> trim (topicName st) \<noteq> []
        \<and> find (\<lambda>s. s_id s = selectedSubjectId st) (subjects st) = Some subj"
  have loop: "scheduleNotifications os accepts now (trim (topicName st)) (s_name subj)
                = (map ScheduleNotification ?calls, list_all accepts ?ns)"
    using a by (simp only: scheduleNotifications_def scheduleLoop_calls revisionDays_def Let_def
                  if_False)
  have eff: "fst (addTopic os accepts now (Response True (Some detail)) st)
            = Fetch ''POST'' ''/api/topics''
                [(''subject_id'', JString (selectedSubjectId st)),
                 (''name'', JString (trim (topicName st))),
                 (''notes'', JString (trim (topicNotes st)))]
              # map ScheduleNotification ?calls
              @ (if list_all accepts ?ns
                 then [AlertThenBack ''Success''
                         ''Topic added successfully with revision reminders!'']
                 else [ConsoleError ''Error adding topic:'',
                       Alert ''Error'' ''Failed to add topic''])"
    using a by (simp add: addTopic_def Let_def loop)
  have sch: "scheduled (fst (addTopic os accepts now (Response True (Some detail)) st)) = ?calls"
    by (simp add: eff scheduled_append scheduled_calls)
  have full: "list_all accepts ?ns \<longrightarrow>
               scheduled (fst (addTopic os accepts now (Response True (Some detail)) st)) = ?ns"
  proof
    assume "list_all accepts ?ns"
    then have all: "\<forall>n\<in>set ?ns. accepts n" by (simp only: list_all_iff)
    then have "takeWhile accepts ?ns = ?ns" by (simp only: takeWhile_eq_all_conv)
    moreover from all have "dropWhile accepts ?ns = []" by (simp only: dropWhile_eq_Nil_conv)
    ultimately show
      "scheduled (fst (addTopic os accepts now (Response True (Some detail)) st)) = ?ns"
      by (simp only: sch take_Nil append_Nil2)
  qed
  have three: "localMs now < 86400000 \<longrightarrow> length ?ns = 3"
  proof
    assume ms: "localMs now < 86400000"
    have "filter (\<lambda>day. getTime now < getTime (setHours (addDays now day) 9 0 0 0)) [2, 7, 14]
            = [2, 7, 14]"
      using trigger_in_future [OF ms, of 2] trigger_in_future [OF ms, of 7]
        trigger_in_future [OF ms, of 14]
      by simp
    then show "length ?ns = 3" by (simp only: length_map) simp
  qed
  from eff sch full three
  show "let ns = ?ns
       in fst (addTopic os accepts now (Response True (Some detail)) st)
            = Fetch ''POST'' ''/api/topics''
                [(''subject_id'', JString (selectedSubjectId st)),
                 (''name'', JString (trim (topicName st))),
                 (''notes'', JString (trim (topicNotes st)))]
              # map ScheduleNotification (takeWhile accepts ns @ take 1 (dropWhile accepts ns))
              @ (if list_all accepts ns
                 then [AlertThenBack ''Success''
                         ''Topic added successfully with revision reminders!'']
                 else [ConsoleError ''Error adding topic:'',
                       Alert ''Error'' ''Failed to add topic''])
          \<and> scheduled (fst (addTopic os accepts now (Response True (Some detail)) st))
            = takeWhile accepts ns @ take 1 (dropWhile accepts ns)
          \<and> (list_all accepts ns \<longrightarrow>
               scheduled (fst (addTopic os accepts now (Response True (Some detail)) st)) = ns)
          \<and> (localMs now < 86400000 \<longrightarrow> length ns = 3)"
    unfolding Let_def by blast
qed

theorem notifications_scheduled_witness:
  "map n_body (scheduled (fst (addTopic ''ios'' (\<lambda>n. True) exampleNow
       (Response True (Some None)) exampleForm)))
     = [''Day 2 revision for Surgery'', ''Day 7 revision for Surgery'', ''Day 14 revision for Surgery'']
   \<and> map n_title (scheduled (fst (addTopic ''ios'' (\<lambda>n. True) exampleNow
       (Response True (Some None)) exampleForm)))
     = [''Time to revise: Bowel Obstruction'', ''Time to revise: Bowel Obstruction'',
        ''Time to revise: Bowel Obstruction'']
   \<and> map n_trigger (scheduled (fst (addTopic ''ios'' (\<lambda>n. True) exampleNow
       (Response True (Some None)) exampleForm)))
     = [\<lparr>localDay = 19725, localMs = 32400000\<rparr>, \<lparr>localDay = 19730, localMs = 32400000\<rparr>,
        \<lparr>localDay = 19737, localMs = 32400000\<rparr>]
   \<and> map n_body (scheduled (fst (addTopic ''ios'' (\<lambda>n. localDay (n_trigger n) \<noteq> 19730) exampleNow
       (Response True (Some None)) exampleForm)))
     = [''Day 2 revision for Surgery'', ''Day 7 revision for Surgery'']
   \<and> drop 3 (fst (addTopic ''ios'' (\<lambda>n. localDay (n_trigger n) \<noteq> 19730) exampleNow
       (Response True (Some None)) exampleForm))
     = [ConsoleError ''Error adding topic:'', Alert ''Error'' ''Failed to add topic'']
   \<and> scheduled (fst (addTopic ''ios'' (\<lambda>n. True) exampleNow (Response True None) exampleForm)) = []
   \<and> scheduled (fst (addTopic ''ios'' (\<lambda>n. True) exampleNow (Response True (Some None))
       (exampleForm\<lparr>subjects := []\<rparr>))) = []"
  using
    notifications_scheduled [where accepts = "\<lambda>n. True" and now = exampleNow
      and resp = "Response True (Some None)" and st = exampleForm and os = "''ios''"
      and subj = exampleSubject and detail = None]
    notifications_scheduled [where accepts = "\<lambda>n. localDay (n_trigger n) \<noteq> 19730"
      and now = exampleNow and resp = "Response True (Some None)" and st = exampleForm
      and os = "''ios''" and subj = exampleSubject and detail = None]
    notifications_scheduled [where accepts = "\<lambda>n. True" and now = exampleNow
      and resp = "Response True None" and st = exampleForm and os = "''ios''"]
    notifications_scheduled [where accepts = "\<lambda>n. True" and now = exampleNow
      and resp = "Response True (Some None)" and st = "exampleForm\<lparr>subjects := []\<rparr>"
      and os = "''ios''"]
  by (simp add: exampleForm_def exampleSubject_def exampleNow_def getTime_def setHours_def
        addDays_def trim_def isWhiteSpace_def showInt_def showNat.simps digitChar_def Let_def)

text \<open>
  C10. \<open>getNextRevision\<close> returns null exactly when every checkpoint is completed;
  otherwise it returns a checkpoint of the list that is not completed and whose date is
  not after the date of any checkpoint of the list that is not completed.
\<close>

theorem next_revision:
  "(getNextRevision p rds = None \<longleftrightarrow> (\<forall>rd\<in>set rds. completed rd))
   \<and> (\<forall>r. getNextRevision p rds = Some r \<longrightarrow>
          r \<in> set rds \<and> \<not> completed r
          \<and> (\<forall>rd\<in>set rds. \<not> completed rd \<longrightarrow> p (date r) \<le> p (date rd)))"
proof (cases "sort_key (\<lambda>rd. p (date rd)) (filter (\<lambda>rd. \<not> completed rd) rds)")
  case Nil
  then have "filter (\<lambda>rd. \<not> completed rd) rds = []"
    by (metis length_sort length_0_conv)
  then show ?thesis
    by (simp add: getNextRevision_def filter_empty_conv)
next
  case (Cons y ys)
  from sort_key_head_min [OF this]
  have m: "y \<in> set (filter (\<lambda>rd. \<not> completed rd) rds)"
    and le: "\<forall>x\<in>set (filter (\<lambda>rd. \<not> completed rd) rds). p (date y) \<le> p (date x)"
    by blast+
  from m have ne: "filter (\<lambda>rd. \<not> completed rd) rds \<noteq> []"
    by (auto simp: filter_empty_conv)
  then have g: "getNextRevision p rds = Some y"
    using Cons by (simp add: getNextRevision_def)
  from m have "\<not> (\<forall>rd\<in>set rds. completed rd)" by auto
  with g m le show ?thesis by auto
qed

theorem next_revision_witness:
  "getNextRevision exampleTime exampleDates
     = Some \<lparr>date = ''2024-01-08'', day_number = 7, completed = False\<rparr>
   \<and> exampleTime ''2024-01-08'' \<le> exampleTime ''2024-01-15''
   \<and> getNextRevision exampleTime (map (\<lambda>rd. rd\<lparr>completed := True\<rparr>) exampleDates) = None"
proof -
  have e: "getNextRevision exampleTime exampleDates
     = Some \<lparr>date = ''2024-01-08'', day_number = 7, completed = False\<rparr>"
    by (simp add: exampleDates_def exampleTime_def getNextRevision_def)
  have all: "\<forall>rd\<in>set (map (\<lambda>rd. rd\<lparr>completed := True\<rparr>) exampleDates). completed rd"
    by (simp add: exampleDates_def)
  have last: "\<lparr>date = ''2024-01-15'', day_number = 14, completed = False\<rparr> \<in> set exampleDates"
    by (simp add: exampleDates_def)
  from next_revision [of exampleTime exampleDates] e last
  have "exampleTime ''2024-01-08'' \<le> exampleTime ''2024-01-15''" by fastforce
  moreover from next_revision [of exampleTime "map (\<lambda>rd. rd\<lparr>completed := True\<rparr>) exampleDates"] all
  have "getNextRevision exampleTime (map (\<lambda>rd. rd\<lparr>completed := True\<rparr>) exampleDates) = None"
    by blast
  ultimately show ?thesis using e by simp
qed

end
